theory Spec2Isabelle
  imports Main
begin

section \<open>The invoice retriever (src/app.py)\<close>

text \<open>
  The job authenticates against the mail and the storage service, lists the messages that
  match a fixed query, and for every PDF-named part of every message downloads the
  attachment, writes it to a scratch file, uploads the file and removes it.

  The program is a sequence of calls into libraries and remote services. Every such call
  is a function of the environment \<open>env\<close>: it is given the history of the calls made so
  far, so a service may answer the same request differently at different times, and it
  either raises (\<open>Inl\<close>) or returns (\<open>Inr\<close>). The program state holds what the properties
  below observe: the files of the local file system, the log records written, and the calls made.
\<close>

subsection \<open>Values\<close>

text \<open>An exception, with the text that \<^verbatim>\<open>str(e)\<close> gives.\<close>

datatype exn = Exn string

fun str :: "exn \<Rightarrow> string" where
  "str (Exn m) = m"

text \<open>A log record: \<^verbatim>\<open>logger.info\<close> and \<^verbatim>\<open>logger.error\<close>.\<close>

datatype log_record = INFO string | ERROR string

text \<open>The credentials object: the three attributes \<^verbatim>\<open>get_google_service\<close> reads.\<close>

record creds =
  valid :: bool
  expired :: bool
  refresh_token :: "string option"

text \<open>A service handle, as \<^verbatim>\<open>build(service_name, version, credentials=creds)\<close> returns it.\<close>

datatype service = Service string string

text \<open>
  The responses of the mail service. A key the source tests with \<^verbatim>\<open>in\<close> or reads with
  \<^verbatim>\<open>.get\<close> is optional; a key the source indexes (\<^verbatim>\<open>message['id']\<close>,
  \<^verbatim>\<open>attachment['data']\<close>) is a field the service's schema always sends.
\<close>

record part_body =
  attachmentId :: "string option"

record message_part =
  part_filename :: "string option"
  part_body :: "part_body option"

record message_payload =
  parts :: "message_part list option"

record message =
  payload :: "message_payload option"

record message_ref =
  message_id :: string

record list_response =
  messages :: "message_ref list option"

record attachment =
  data :: string

text \<open>The storage service's answer to a create request; \<^verbatim>\<open>file.get('id')\<close> may be None.\<close>

record drive_file =
  file_id :: "string option"

subsection \<open>State and environment\<close>

text \<open>The calls that leave the program, in the order they are made.\<close>

datatype call =
    FromClientSecretsFile string
  | RunLocalServer
  | Refresh
  | Build string string
  | MessagesList string
  | MessagesGet string
  | AttachmentsGet string string
  | Makedirs string
  | OpenWb string
  | WriteBytes string string
  | MediaFileUpload string
  | FilesCreate string "string option" string
  | Remove string

record state =
  fs :: "string \<rightharpoonup> string"
  logged :: "log_record list"
  calls :: "call list"

record env =
  DRIVE_FOLDER_ID :: "string option"
  from_client_secrets_file :: "call list \<Rightarrow> string \<Rightarrow> exn option"
  run_local_server :: "call list \<Rightarrow> exn + creds"
  refresh :: "call list \<Rightarrow> creds \<Rightarrow> exn + creds"
  build :: "call list \<Rightarrow> string \<Rightarrow> string \<Rightarrow> creds \<Rightarrow> exn + service"
  messages_list :: "call list \<Rightarrow> service \<Rightarrow> string \<Rightarrow> exn + list_response"
  messages_get :: "call list \<Rightarrow> service \<Rightarrow> string \<Rightarrow> exn + message"
  attachments_get :: "call list \<Rightarrow> service \<Rightarrow> string \<Rightarrow> string \<Rightarrow> exn + attachment"
  urlsafe_b64decode :: "string \<Rightarrow> exn + string"
  makedirs :: "call list \<Rightarrow> string \<Rightarrow> exn option"
  open_wb :: "call list \<Rightarrow> string \<Rightarrow> exn option"
  write_bytes :: "call list \<Rightarrow> string \<Rightarrow> string \<Rightarrow> exn option"
  remove :: "call list \<Rightarrow> string \<Rightarrow> exn option"
  files_create :: "call list \<Rightarrow> service \<Rightarrow> string \<Rightarrow> string option \<Rightarrow> string \<Rightarrow> exn + drive_file"

text \<open>A statement either raises or returns a value, and leaves a state.\<close>

type_synonym 'a result = "(exn + 'a) \<times> state"

text \<open>Sequencing: an exception skips the statements that follow.\<close>

definition and_then :: "'a result \<Rightarrow> ('a \<Rightarrow> state \<Rightarrow> 'b result) \<Rightarrow> 'b result" where
  "and_then r f = (case r of (Inl e, s) \<Rightarrow> (Inl e, s) | (Inr x, s) \<Rightarrow> f x s)"

text \<open>\<^verbatim>\<open>try: ... except Exception as e: ...\<close>\<close>

definition try_except :: "unit result \<Rightarrow> (exn \<Rightarrow> state \<Rightarrow> unit result) \<Rightarrow> unit result" where
  "try_except r h = (case r of (Inl e, s) \<Rightarrow> h e s | (Inr x, s) \<Rightarrow> (Inr x, s))"

text \<open>A \<^verbatim>\<open>for\<close> loop whose body is a statement: an exception leaves the loop.\<close>

primrec for_each :: "('a \<Rightarrow> state \<Rightarrow> unit result) \<Rightarrow> 'a list \<Rightarrow> state \<Rightarrow> unit result" where
  "for_each f [] = (\<lambda>s. (Inr (), s))"
| "for_each f (x # xs) = (\<lambda>s. and_then (f x s) (\<lambda>_. for_each f xs))"

text \<open>A call that leaves the program: it is recorded, and the environment answers it.\<close>

definition external :: "call \<Rightarrow> (call list \<Rightarrow> exn + 'a) \<Rightarrow> state \<Rightarrow> 'a result" where
  "external c answer s = (answer (calls s), s\<lparr>calls := calls s @ [c]\<rparr>)"

definition raises :: "exn option \<Rightarrow> exn + unit" where
  "raises r = (case r of None \<Rightarrow> Inr () | Some e \<Rightarrow> Inl e)"

definition logger_info :: "string \<Rightarrow> state \<Rightarrow> unit result" where
  "logger_info m s = (Inr (), s\<lparr>logged := logged s @ [INFO m]\<rparr>)"

definition logger_error :: "string \<Rightarrow> state \<Rightarrow> unit result" where
  "logger_error m s = (Inr (), s\<lparr>logged := logged s @ [ERROR m]\<rparr>)"

subsection \<open>The local file system\<close>

text \<open>
  Files are kept by the path string the program passes. \<^verbatim>\<open>open(path, 'wb')\<close> creates
  the file or empties it unless the system refuses the path; \<^verbatim>\<open>f.write\<close> stores the
  bytes unless it fails; \<^verbatim>\<open>os.remove\<close> raises when there is no such file, and
  deletes the file unless the system refuses (the file is then left as it was).
\<close>

definition os_makedirs :: "env \<Rightarrow> string \<Rightarrow> state \<Rightarrow> unit result" where
  "os_makedirs E path s = external (Makedirs path) (\<lambda>h. raises (makedirs E h path)) s"

definition open_write :: "env \<Rightarrow> string \<Rightarrow> string \<Rightarrow> state \<Rightarrow> unit result" where
  "open_write E path file_data s =
     and_then (external (OpenWb path) (\<lambda>h. raises (open_wb E h path)) s) (\<lambda>_ s.
     and_then (Inr (), s\<lparr>fs := (fs s)(path \<mapsto> [])\<rparr>) (\<lambda>_ s.
     and_then (external (WriteBytes path file_data) (\<lambda>h. raises (write_bytes E h path file_data)) s) (\<lambda>_ s.
     (Inr (), s\<lparr>fs := (fs s)(path \<mapsto> file_data)\<rparr>))))"

definition os_remove :: "env \<Rightarrow> string \<Rightarrow> state \<Rightarrow> unit result" where
  "os_remove E path s =
     (case fs s path of
        None \<Rightarrow> (Inl (Exn ''No such file or directory''), s\<lparr>calls := calls s @ [Remove path]\<rparr>)
      | Some _ \<Rightarrow>
          and_then (external (Remove path) (\<lambda>h. raises (remove E h path)) s) (\<lambda>_ s.
          (Inr (), s\<lparr>fs := (fs s)(path := None)\<rparr>)))"

text \<open>The f-string \<^verbatim>\<open>f"invoices/{filename}"\<close>.\<close>

definition local_path :: "string \<Rightarrow> string" where
  "local_path filename = ''invoices/'' @ filename"

subsection \<open>\<^verbatim>\<open>get_google_service\<close>\<close>

definition get_google_service ::
  "env \<Rightarrow> string \<Rightarrow> string \<Rightarrow> creds option \<Rightarrow> state \<Rightarrow> service result" where
  "get_google_service E service_name version cr s =
     and_then
       (case cr of
          None \<Rightarrow>
            and_then (external (FromClientSecretsFile ''credentials.json'')
                        (\<lambda>h. raises (from_client_secrets_file E h ''credentials.json'')) s) (\<lambda>_ s.
            external RunLocalServer (run_local_server E) s)
        | Some c \<Rightarrow>
            if valid c then (Inr c, s)
            else if expired c \<and> refresh_token c \<noteq> None \<and> refresh_token c \<noteq> Some []
            then external Refresh (\<lambda>h. refresh E h c) s
            else
              and_then (external (FromClientSecretsFile ''credentials.json'')
                          (\<lambda>h. raises (from_client_secrets_file E h ''credentials.json'')) s) (\<lambda>_ s.
              external RunLocalServer (run_local_server E) s))
       (\<lambda>c s. external (Build service_name version) (\<lambda>h. build E h service_name version c) s)"

subsection \<open>\<^verbatim>\<open>upload_to_drive\<close>\<close>

text \<open>\<^verbatim>\<open>file.get('id')\<close> inside the f-string: None prints as \<^verbatim>\<open>None\<close>.\<close>

definition str_opt :: "string option \<Rightarrow> string" where
  "str_opt v = (case v of None \<Rightarrow> ''None'' | Some x \<Rightarrow> x)"

text \<open>\<^verbatim>\<open>MediaFileUpload\<close> opens the file when it is constructed.\<close>

definition media_file_upload :: "string \<Rightarrow> state \<Rightarrow> string result" where
  "media_file_upload path s =
     (case fs s path of
        None \<Rightarrow> (Inl (Exn ''No such file or directory''), s\<lparr>calls := calls s @ [MediaFileUpload path]\<rparr>)
      | Some content \<Rightarrow> (Inr content, s\<lparr>calls := calls s @ [MediaFileUpload path]\<rparr>))"

definition upload_to_drive_body :: "env \<Rightarrow> service \<Rightarrow> string \<Rightarrow> state \<Rightarrow> unit result" where
  "upload_to_drive_body E drive_service filename s =
     and_then (media_file_upload (local_path filename) s) (\<lambda>media s.
     and_then (external (FilesCreate filename (DRIVE_FOLDER_ID E) (local_path filename))
                 (\<lambda>h. files_create E h drive_service filename (DRIVE_FOLDER_ID E) media) s) (\<lambda>file s.
     logger_info (''File '' @ filename @ '' uploaded successfully, ID: '' @ str_opt (file_id file)) s))"

definition upload_to_drive :: "env \<Rightarrow> service \<Rightarrow> string \<Rightarrow> state \<Rightarrow> unit result" where
  "upload_to_drive E drive_service filename s =
     try_except (upload_to_drive_body E drive_service filename s)
       (\<lambda>e. logger_error (''Error uploading to Drive: '' @ str e))"

subsection \<open>\<^verbatim>\<open>process_attachment\<close>\<close>

text \<open>\<^verbatim>\<open>part['filename']\<close>: a missing key raises KeyError, whose text is the quoted key.\<close>

definition index_filename :: "message_part \<Rightarrow> state \<Rightarrow> string result" where
  "index_filename part' s =
     (case part_filename part' of
        None \<Rightarrow> (Inl (Exn ([CHR 0x27] @ ''filename'' @ [CHR 0x27])), s)
      | Some filename \<Rightarrow> (Inr filename, s))"

definition process_attachment_body ::
  "env \<Rightarrow> service \<Rightarrow> service \<Rightarrow> string \<Rightarrow> message_part \<Rightarrow> state \<Rightarrow> unit result" where
  "process_attachment_body E gmail_service drive_service msg_id part' s =
     (case part_body part' of
        None \<Rightarrow> (Inr (), s)
      | Some b \<Rightarrow>
          (case attachmentId b of
             None \<Rightarrow> (Inr (), s)
           | Some att_id \<Rightarrow>
               and_then (external (AttachmentsGet msg_id att_id)
                           (\<lambda>h. attachments_get E h gmail_service msg_id att_id) s) (\<lambda>attachment s.
               and_then (urlsafe_b64decode E (data attachment), s) (\<lambda>file_data s.
               and_then (index_filename part' s) (\<lambda>filename s.
               and_then (open_write E (local_path filename) file_data s) (\<lambda>_ s.
               and_then (upload_to_drive E drive_service filename s) (\<lambda>_ s.
               os_remove E (local_path filename) s)))))))"

definition process_attachment ::
  "env \<Rightarrow> service \<Rightarrow> service \<Rightarrow> string \<Rightarrow> message_part \<Rightarrow> state \<Rightarrow> unit result" where
  "process_attachment E gmail_service drive_service msg_id part' s =
     try_except (process_attachment_body E gmail_service drive_service msg_id part' s)
       (\<lambda>e. logger_error (''Error processing attachment: '' @ str e))"

subsection \<open>\<^verbatim>\<open>process_single_email\<close>\<close>

text \<open>
  \<^verbatim>\<open>str.lower\<close> and \<^verbatim>\<open>str.endswith\<close>. A string is its bytes; only the letters A to Z
  have a lower-case form that is a letter of \<^verbatim>\<open>.pdf\<close>.
\<close>

definition lower_char :: "char \<Rightarrow> char" where
  "lower_char c =
     (if (65::nat) \<le> of_char c \<and> of_char c \<le> (90::nat) then char_of (of_char c + (32::nat)) else c)"

definition lower :: "string \<Rightarrow> string" where
  "lower s = map lower_char s"

definition endswith :: "string \<Rightarrow> string \<Rightarrow> bool" where
  "endswith s suffix = (length suffix \<le> length s \<and> drop (length s - length suffix) s = suffix)"

text \<open>
  The test \<^verbatim>\<open>part.get('filename') and part['filename'].lower().endswith('.pdf')\<close>:
  a missing and an empty filename are both falsy.
\<close>

definition is_pdf_part :: "message_part \<Rightarrow> bool" where
  "is_pdf_part part' =
     (case part_filename part' of
        None \<Rightarrow> False
      | Some filename \<Rightarrow> filename \<noteq> [] \<and> endswith (lower filename) ''.pdf'')"

text \<open>
  The parts the loop runs over: none unless the message has a payload and the payload
  has parts (\<^verbatim>\<open>'payload' in message and 'parts' in message['payload']\<close>).
\<close>

definition message_parts :: "message \<Rightarrow> message_part list" where
  "message_parts m =
     (case payload m of
        None \<Rightarrow> []
      | Some p \<Rightarrow> (case parts p of None \<Rightarrow> [] | Some ps \<Rightarrow> ps))"

definition process_part ::
  "env \<Rightarrow> service \<Rightarrow> service \<Rightarrow> string \<Rightarrow> message_part \<Rightarrow> state \<Rightarrow> unit result" where
  "process_part E gmail_service drive_service msg_id part' s =
     (if is_pdf_part part' then process_attachment E gmail_service drive_service msg_id part' s
      else (Inr (), s))"

definition process_single_email_body ::
  "env \<Rightarrow> service \<Rightarrow> service \<Rightarrow> string \<Rightarrow> state \<Rightarrow> unit result" where
  "process_single_email_body E gmail_service drive_service msg_id s =
     and_then (external (MessagesGet msg_id) (\<lambda>h. messages_get E h gmail_service msg_id) s) (\<lambda>m s.
     for_each (process_part E gmail_service drive_service msg_id) (message_parts m) s)"

definition process_single_email ::
  "env \<Rightarrow> service \<Rightarrow> service \<Rightarrow> string \<Rightarrow> state \<Rightarrow> unit result" where
  "process_single_email E gmail_service drive_service msg_id s =
     try_except (process_single_email_body E gmail_service drive_service msg_id s)
       (\<lambda>e. logger_error (''Error processing message '' @ msg_id @ '': '' @ str e))"

subsection \<open>\<^verbatim>\<open>process_emails\<close>\<close>

text \<open>The triple-quoted literal, line by line as the source has it.\<close>

definition newline :: char where
  "newline = CHR 0x0A"

definition query_literal :: string where
  "query_literal =
     concat (map (\<lambda>l. l @ [newline])
       ['''',
        ''            newer:1d'',
        ''            AND'',
        ''            (from:billing@render.com OR '',
        ''             from:support@netlify.com OR'',
        ''             from:billing@netlify.com OR'',
        ''             from:payments-noreply@google.com OR'',
        ''             from:billing@webflow.com OR'',
        ''             from:billing@box.com OR'',
        ''             from:billing@typeform.com OR'',
        ''             from:no-reply@business.amazon.com OR'',
        ''             from:*@anthemwelderssupply.com)'',
        ''            AND '',
        ''            (subject:invoice OR subject:receipt OR subject:bill OR subject:payment)'',
        ''            AND '',
        ''            has:attachment''])
     @ ''        ''"

text \<open>\<^verbatim>\<open>.replace('\n', ' ')\<close> and \<^verbatim>\<open>.strip()\<close>.\<close>

definition replace_newlines :: "string \<Rightarrow> string" where
  "replace_newlines s = map (\<lambda>c. if c = newline then CHR '' '' else c) s"

definition is_space :: "char \<Rightarrow> bool" where
  "is_space c = (c \<in> set [CHR '' '', CHR 0x09, CHR 0x0A, CHR 0x0B, CHR 0x0C, CHR 0x0D])"

definition strip :: "string \<Rightarrow> string" where
  "strip s = rev (dropWhile is_space (rev (dropWhile is_space s)))"

definition query :: string where
  "query = strip (replace_newlines query_literal)"

text \<open>\<^verbatim>\<open>results.get('messages', [])\<close>\<close>

definition get_messages :: "list_response \<Rightarrow> message_ref list" where
  "get_messages results = (case messages results of None \<Rightarrow> [] | Some ms \<Rightarrow> ms)"

definition process_emails_body :: "env \<Rightarrow> state \<Rightarrow> unit result" where
  "process_emails_body E s =
     and_then (get_google_service E ''gmail'' ''v1'' None s) (\<lambda>gmail_service s.
     and_then (get_google_service E ''drive'' ''v3'' None s) (\<lambda>drive_service s.
     and_then (external (MessagesList query) (\<lambda>h. messages_list E h gmail_service query) s) (\<lambda>results s.
     for_each (\<lambda>m. process_single_email E gmail_service drive_service (message_id m))
       (get_messages results) s)))"

definition process_emails :: "env \<Rightarrow> state \<Rightarrow> unit result" where
  "process_emails E s =
     try_except (process_emails_body E s)
       (\<lambda>e. logger_error (''Error processing emails: '' @ str e))"

subsection \<open>\<^verbatim>\<open>main\<close>\<close>

definition main :: "env \<Rightarrow> state \<Rightarrow> unit result" where
  "main E s =
     and_then (logger_info ''Starting invoice processing job'' s) (\<lambda>_ s.
     and_then (os_makedirs E ''invoices'' s) (\<lambda>_ s.
     and_then (process_emails E s) (\<lambda>_ s.
     logger_info ''Completed invoice processing job'' s)))"

subsection \<open>Observations on a run\<close>

text \<open>The calls that download an attachment, fetch a message, or create a file in the folder.\<close>

fun is_download :: "call \<Rightarrow> bool" where
  "is_download (AttachmentsGet _ _) = True"
| "is_download _ = False"

fun is_fetch :: "call \<Rightarrow> bool" where
  "is_fetch (MessagesGet _) = True"
| "is_fetch _ = False"

fun is_upload :: "call \<Rightarrow> bool" where
  "is_upload (FilesCreate _ _ _) = True"
| "is_upload _ = False"

text \<open>
  The calls that process a message: everything but authentication, the search and the
  creation of the scratch directory.
\<close>

fun is_processing :: "call \<Rightarrow> bool" where
  "is_processing (FromClientSecretsFile _) = False"
| "is_processing RunLocalServer = False"
| "is_processing Refresh = False"
| "is_processing (Build _ _) = False"
| "is_processing (MessagesList _) = False"
| "is_processing (Makedirs _) = False"
| "is_processing _ = True"

text \<open>The download that the loop of \<^verbatim>\<open>process_single_email\<close> makes for one part.\<close>

definition downloads_of :: "string \<Rightarrow> message_part \<Rightarrow> call list" where
  "downloads_of msg_id part' =
     (if is_pdf_part part'
      then (case part_body part' of
              None \<Rightarrow> []
            | Some b \<Rightarrow> (case attachmentId b of None \<Rightarrow> [] | Some att_id \<Rightarrow> [AttachmentsGet msg_id att_id]))
      else [])"




text \<open>The words of a string (\<^verbatim>\<open>str.split()\<close>) and \<^verbatim>\<open>sep.join\<close>.\<close>

fun tokens_from :: "string \<Rightarrow> string \<Rightarrow> string list" where
  "tokens_from cur [] = (if cur = [] then [] else [cur])"
| "tokens_from cur (c # cs) =
     (if is_space c then (if cur = [] then tokens_from [] cs else cur # tokens_from [] cs)
      else tokens_from (cur @ [c]) cs)"

definition tokens :: "string \<Rightarrow> string list" where
  "tokens s = tokens_from [] s"

fun join :: "string \<Rightarrow> string list \<Rightarrow> string" where
  "join sep [] = []"
| "join sep [x] = x"
| "join sep (x # y # ys) = x @ sep @ join sep (y # ys)"

text \<open>
  The query as the specification describes it: the time window, the senders joined with OR
  in one group, the subject keywords joined with OR in one group, the attachment
  constraint, with AND between them.
\<close>

definition spec_or_group :: "string \<Rightarrow> string list \<Rightarrow> string" where
  "spec_or_group field values = ''('' @ join '' OR '' (map (\<lambda>v. field @ '':'' @ v) values) @ '')''"

definition spec_query :: "string \<Rightarrow> string list \<Rightarrow> string list \<Rightarrow> string" where
  "spec_query window senders keywords =
     join '' AND '' [window, spec_or_group ''from'' senders, spec_or_group ''subject'' keywords, ''has:attachment'']"

subsection \<open>A sample run\<close>

text \<open>
  Three messages \<^verbatim>\<open>m1\<close>, \<^verbatim>\<open>m2\<close>, \<^verbatim>\<open>m3\<close>, each with one PDF part; the download of
  the attachment of \<^verbatim>\<open>m2\<close> fails, every other call succeeds.
\<close>

definition initial :: state where
  "initial = \<lparr>fs = Map.empty, logged = [], calls = []\<rparr>"

definition sample_part :: "string \<Rightarrow> string \<Rightarrow> message_part" where
  "sample_part filename att_id =
     \<lparr>part_filename = Some filename, part_body = Some \<lparr>attachmentId = Some att_id\<rparr>\<rparr>"

definition sample_env :: env where
  "sample_env =
     \<lparr>DRIVE_FOLDER_ID = Some ''folder'',
      from_client_secrets_file = (\<lambda>h path. None),
      run_local_server = (\<lambda>h. Inr \<lparr>valid = True, expired = False, refresh_token = None\<rparr>),
      refresh = (\<lambda>h c. Inr c),
      build = (\<lambda>h service_name version c. Inr (Service service_name version)),
      messages_list = (\<lambda>h g q.
        Inr \<lparr>messages = Some [\<lparr>message_id = ''m1''\<rparr>, \<lparr>message_id = ''m2''\<rparr>, \<lparr>message_id = ''m3''\<rparr>]\<rparr>),
      messages_get = (\<lambda>h g msg_id.
        Inr \<lparr>payload = Some \<lparr>parts = Some [sample_part (msg_id @ ''.pdf'') (''att-'' @ msg_id)]\<rparr>\<rparr>),
      attachments_get = (\<lambda>h g msg_id att_id.
        if msg_id = ''m2'' then Inl (Exn ''HttpError 500'') else Inr \<lparr>data = att_id\<rparr>),
      urlsafe_b64decode = (\<lambda>d. Inr d),
      makedirs = (\<lambda>h path. None),
      open_wb = (\<lambda>h path. None),
      write_bytes = (\<lambda>h path file_data. None),
      remove = (\<lambda>h path. None),
      files_create = (\<lambda>h d name parent content. Inr \<lparr>file_id = Some (''id-'' @ name)\<rparr>)\<rparr>"


text \<open>The same environment in a working directory where no directory can be created.\<close>

definition readonly_env :: env where
  "readonly_env = sample_env\<lparr>makedirs := \<lambda>h path. Some (Exn ''[Errno 13] Permission denied'')\<rparr>"

section \<open>Properties\<close>

subsection \<open>Every handler returns\<close>

lemma try_except_logger_error_returns:
  "fst (try_except r (\<lambda>e. logger_error (m e))) = Inr ()"
  by (cases r) (auto simp: try_except_def logger_error_def split: sum.splits)

lemma upload_to_drive_returns: "fst (upload_to_drive E drive_service filename s) = Inr ()"
  unfolding upload_to_drive_def by (rule try_except_logger_error_returns)

lemma process_attachment_returns:
  "fst (process_attachment E gmail_service drive_service msg_id p s) = Inr ()"
  unfolding process_attachment_def by (rule try_except_logger_error_returns)

lemma process_single_email_returns:
  "fst (process_single_email E gmail_service drive_service msg_id s) = Inr ()"
  unfolding process_single_email_def by (rule try_except_logger_error_returns)

lemma process_emails_returns: "fst (process_emails E s) = Inr ()"
  unfolding process_emails_def by (rule try_except_logger_error_returns)

text \<open>A loop whose body always returns runs the body on every element, in order.\<close>

lemma for_each_returns:
  assumes "\<And>x s. fst (f x s) = Inr ()"
  shows "for_each f xs s = (Inr (), foldl (\<lambda>s x. snd (f x s)) s xs)"
proof (induction xs arbitrary: s)
  case Nil
  show ?case by simp
next
  case (Cons x xs)
  obtain r s' where fx: "f x s = (r, s')" by (cases "f x s")
  with assms [of x s] have "r = Inr ()" by simp
  with fx Cons show ?case by (simp add: and_then_def)
qed

subsection \<open>Running the statements\<close>

lemma and_then_Inl: "and_then (Inl e, s) f = (Inl e, s)"
  by (simp add: and_then_def)

lemma and_then_Inr: "and_then (Inr x, s) f = f x s"
  by (simp add: and_then_def)

lemma try_except_Inl: "try_except (Inl e, s) h = h e s"
  by (simp add: try_except_def)

lemma try_except_Inr: "try_except (Inr x, s) h = (Inr x, s)"
  by (simp add: try_except_def)

lemmas run_simps = and_then_Inl and_then_Inr try_except_Inl try_except_Inr external_def
  raises_def logger_info_def logger_error_def




subsection \<open>The upload\<close>

text \<open>
  C10. \<^verbatim>\<open>upload_to_drive\<close> never propagates an exception: whatever the file system and
  the storage service do, the call returns normally. A failure of its body has been logged
  as an error by then, and the value returned is the same as after a successful upload.
\<close>

theorem upload_to_drive_never_raises:
  "fst (upload_to_drive E drive_service filename s) = Inr () \<and>
   upload_to_drive E drive_service filename s =
     (case upload_to_drive_body E drive_service filename s of
        (Inl e, s') \<Rightarrow> (Inr (), s'\<lparr>logged := logged s' @ [ERROR (''Error uploading to Drive: '' @ str e)]\<rparr>)
      | (Inr u, s') \<Rightarrow> (Inr (), s'))"
  by (auto simp: upload_to_drive_def try_except_def logger_error_def split: prod.splits sum.splits)

subsection \<open>The search query\<close>

text \<open>
  C4. The query that \<^verbatim>\<open>process_emails\<close> sends is, up to the width of the white space
  between its words, the time window \<^verbatim>\<open>newer:1d\<close>, the group of the nine senders joined
  with OR, the group of the four subject keywords joined with OR, and
  \<^verbatim>\<open>has:attachment\<close>, with AND between them.
\<close>

theorem query_is_spec_query:
  "join '' '' (tokens query) =
     spec_query ''newer:1d''
       [''billing@render.com'', ''support@netlify.com'', ''billing@netlify.com'',
        ''payments-noreply@google.com'', ''billing@webflow.com'', ''billing@box.com'',
        ''billing@typeform.com'', ''no-reply@business.amazon.com'', ''*@anthemwelderssupply.com'']
       [''invoice'', ''receipt'', ''bill'', ''payment'']"
  by code_simp

subsection \<open>Attachments\<close>

text \<open>
  C8. A part without an attachment identifier (no body, or a body without
  \<^verbatim>\<open>attachmentId\<close>) is skipped by \<^verbatim>\<open>process_attachment\<close>: the call returns, and
  the state is the one it started from, so nothing was downloaded, no file was written and
  nothing was logged. This holds for every part, and so for the parts named \<^verbatim>\<open>.pdf\<close>
  that the loop selects.
\<close>

theorem part_without_attachment_id_is_skipped:
  assumes "case part_body p of None \<Rightarrow> True | Some b \<Rightarrow> attachmentId b = None"
  shows "process_attachment E gmail_service drive_service msg_id p s = (Inr (), s)"
  using assms
  by (simp add: process_attachment_def process_attachment_body_def run_simps split: option.splits)

theorem part_without_attachment_id_is_skipped_witness:
  "process_attachment sample_env (Service ''gmail'' ''v1'') (Service ''drive'' ''v3'') ''m1''
     \<lparr>part_filename = Some ''invoice.pdf'', part_body = None\<rparr> initial = (Inr (), initial) \<and>
   process_attachment sample_env (Service ''gmail'' ''v1'') (Service ''drive'' ''v3'') ''m1''
     \<lparr>part_filename = Some ''invoice.pdf'', part_body = Some \<lparr>attachmentId = None\<rparr>\<rparr> initial = (Inr (), initial) \<and>
   is_pdf_part \<lparr>part_filename = Some ''invoice.pdf'', part_body = None\<rparr>"
  using part_without_attachment_id_is_skipped [of "\<lparr>part_filename = Some ''invoice.pdf'', part_body = None\<rparr>"
      sample_env "Service ''gmail'' ''v1''" "Service ''drive'' ''v3''" "''m1''" initial]
    part_without_attachment_id_is_skipped [of "\<lparr>part_filename = Some ''invoice.pdf'', part_body = Some \<lparr>attachmentId = None\<rparr>\<rparr>"
      sample_env "Service ''gmail'' ''v1''" "Service ''drive'' ''v3''" "''m1''" initial]
  by (simp add: is_pdf_part_def endswith_def lower_def lower_char_def)






subsection \<open>Messages\<close>

text \<open>
  C5. A message whose content has no payload, or whose payload has no parts, is processed
  without any effect but the fetch of the message: no download, no file, no log record,
  and the call returns normally.
\<close>

theorem message_without_parts_yields_nothing:
  assumes "messages_get E (calls s) gmail_service msg_id = Inr m"
    and "case payload m of None \<Rightarrow> True | Some p \<Rightarrow> parts p = None \<or> parts p = Some []"
  shows "process_single_email E gmail_service drive_service msg_id s =
           (Inr (), s\<lparr>calls := calls s @ [MessagesGet msg_id]\<rparr>)"
proof -
  from assms(2) have "message_parts m = []"
    by (auto simp: message_parts_def split: option.splits)
  with assms(1) show ?thesis
    by (simp add: process_single_email_def process_single_email_body_def run_simps)
qed

theorem message_without_parts_yields_nothing_witness:
  "process_single_email (sample_env\<lparr>messages_get := \<lambda>h g i. Inr \<lparr>payload = None\<rparr>\<rparr>)
      (Service ''gmail'' ''v1'') (Service ''drive'' ''v3'') ''m1'' initial =
     (Inr (), \<lparr>fs = Map.empty, logged = [], calls = [MessagesGet ''m1'']\<rparr>) \<and>
   process_single_email (sample_env\<lparr>messages_get := \<lambda>h g i. Inr \<lparr>payload = Some \<lparr>parts = None\<rparr>\<rparr>\<rparr>)
      (Service ''gmail'' ''v1'') (Service ''drive'' ''v3'') ''m1'' initial =
     (Inr (), \<lparr>fs = Map.empty, logged = [], calls = [MessagesGet ''m1'']\<rparr>)"
  using message_without_parts_yields_nothing [of "sample_env\<lparr>messages_get := \<lambda>h g i. Inr \<lparr>payload = None\<rparr>\<rparr>"
      initial "Service ''gmail'' ''v1''" "''m1''" "\<lparr>payload = None\<rparr>" "Service ''drive'' ''v3''"]
    message_without_parts_yields_nothing [of "sample_env\<lparr>messages_get := \<lambda>h g i. Inr \<lparr>payload = Some \<lparr>parts = None\<rparr>\<rparr>\<rparr>"
      initial "Service ''gmail'' ''v1''" "''m1''" "\<lparr>payload = Some \<lparr>parts = None\<rparr>\<rparr>" "Service ''drive'' ''v3''"]
  by (simp add: sample_env_def initial_def)

subsection \<open>The calls of a run\<close>

text \<open>
  What each function adds to the calls made: \<^verbatim>\<open>process_attachment\<close> fetches no message
  and downloads the attachment of its part, if the part names one.
\<close>

lemma process_attachment_calls:
  "\<exists>cs. calls (snd (process_attachment E gmail_service drive_service msg_id p s)) = calls s @ cs \<and>
     filter is_fetch cs = [] \<and>
     filter is_download cs =
       (case part_body p of
          None \<Rightarrow> []
        | Some b \<Rightarrow> (case attachmentId b of None \<Rightarrow> [] | Some att_id \<Rightarrow> [AttachmentsGet msg_id att_id]))"
  by (auto simp: process_attachment_def process_attachment_body_def index_filename_def
      open_write_def upload_to_drive_def upload_to_drive_body_def media_file_upload_def
      os_remove_def str_opt_def and_then_def try_except_def external_def raises_def
      logger_info_def logger_error_def
      split: option.splits sum.splits prod.splits)

lemma process_part_calls:
  "\<exists>cs. calls (snd (process_part E gmail_service drive_service msg_id p s)) = calls s @ cs \<and>
     filter is_fetch cs = [] \<and> filter is_download cs = downloads_of msg_id p"
proof (cases "is_pdf_part p")
  case True
  with process_attachment_calls [of E gmail_service drive_service msg_id p s]
  show ?thesis by (simp add: process_part_def downloads_of_def)
next
  case False
  then show ?thesis by (simp add: process_part_def downloads_of_def)
qed

lemma process_part_returns:
  "fst (process_part E gmail_service drive_service msg_id p s) = Inr ()"
  by (simp add: process_part_def process_attachment_returns)

lemma parts_loop_calls:
  "\<exists>cs. calls (foldl (\<lambda>s p. snd (process_part E gmail_service drive_service msg_id p s)) s ps) =
          calls s @ cs \<and>
     filter is_fetch cs = [] \<and> filter is_download cs = concat (map (downloads_of msg_id) ps)"
proof (induction ps arbitrary: s)
  case Nil
  show ?case by simp
next
  case (Cons p ps)
  obtain cs where cs: "calls (snd (process_part E gmail_service drive_service msg_id p s)) = calls s @ cs"
      "filter is_fetch cs = []" "filter is_download cs = downloads_of msg_id p"
    using process_part_calls by blast
  obtain ds where ds: "calls (foldl (\<lambda>s p. snd (process_part E gmail_service drive_service msg_id p s))
        (snd (process_part E gmail_service drive_service msg_id p s)) ps) =
        calls (snd (process_part E gmail_service drive_service msg_id p s)) @ ds"
      "filter is_fetch ds = []" "filter is_download ds = concat (map (downloads_of msg_id) ps)"
    using Cons.IH by blast
  from cs ds show ?case by simp
qed

lemma process_single_email_run:
  "process_single_email E gmail_service drive_service msg_id s =
     (case messages_get E (calls s) gmail_service msg_id of
        Inl e \<Rightarrow>
          (Inr (), s\<lparr>calls := calls s @ [MessagesGet msg_id],
                     logged := logged s @ [ERROR (''Error processing message '' @ msg_id @ '': '' @ str e)]\<rparr>)
      | Inr m \<Rightarrow>
          (Inr (), foldl (\<lambda>s p. snd (process_part E gmail_service drive_service msg_id p s))
                     (s\<lparr>calls := calls s @ [MessagesGet msg_id]\<rparr>) (message_parts m)))"
  by (simp add: process_single_email_def process_single_email_body_def run_simps
      for_each_returns [of "process_part E gmail_service drive_service msg_id", OF process_part_returns]
      split: sum.splits)

lemma process_single_email_calls:
  "\<exists>cs. calls (snd (process_single_email E gmail_service drive_service msg_id s)) =
          calls s @ MessagesGet msg_id # cs \<and>
     filter is_fetch cs = [] \<and>
     filter is_download cs =
       (case messages_get E (calls s) gmail_service msg_id of
          Inl e \<Rightarrow> []
        | Inr m \<Rightarrow> concat (map (downloads_of msg_id) (message_parts m)))"
proof (cases "messages_get E (calls s) gmail_service msg_id")
  case (Inl e)
  then show ?thesis by (simp add: process_single_email_run)
next
  case (Inr m)
  obtain cs where "calls (foldl (\<lambda>s p. snd (process_part E gmail_service drive_service msg_id p s))
        (s\<lparr>calls := calls s @ [MessagesGet msg_id]\<rparr>) (message_parts m)) =
        calls (s\<lparr>calls := calls s @ [MessagesGet msg_id]\<rparr>) @ cs"
      "filter is_fetch cs = []" "filter is_download cs = concat (map (downloads_of msg_id) (message_parts m))"
    using parts_loop_calls by blast
  with Inr show ?thesis by (simp add: process_single_email_run)
qed

lemma messages_loop_fetches:
  "filter is_fetch (calls (foldl (\<lambda>s m. snd (process_single_email E gmail_service drive_service (message_id m) s)) s ms)) =
     filter is_fetch (calls s) @ map (\<lambda>m. MessagesGet (message_id m)) ms"
proof (induction ms arbitrary: s)
  case Nil
  show ?case by simp
next
  case (Cons m ms)
  obtain cs where "calls (snd (process_single_email E gmail_service drive_service (message_id m) s)) =
      calls s @ MessagesGet (message_id m) # cs" "filter is_fetch cs = []"
    using process_single_email_calls by blast
  then show ?case by (simp add: Cons.IH)
qed

lemma get_google_service_effect:
  "fs (snd (get_google_service E service_name version cr s)) = fs s \<and>
   logged (snd (get_google_service E service_name version cr s)) = logged s \<and>
   filter is_processing (calls (snd (get_google_service E service_name version cr s))) =
     filter is_processing (calls s)"
  by (auto simp: get_google_service_def and_then_def external_def raises_def
      split: option.splits sum.splits prod.splits)

text \<open>Unfolding the whole program, to run it on the sample environment.\<close>

lemmas model_defs = process_emails_def process_emails_body_def get_google_service_def
  get_messages_def process_single_email_def process_single_email_body_def message_parts_def
  process_part_def is_pdf_part_def endswith_def lower_def lower_char_def
  process_attachment_def process_attachment_body_def index_filename_def local_path_def
  open_write_def os_remove_def os_makedirs_def upload_to_drive_def upload_to_drive_body_def
  media_file_upload_def str_opt_def main_def

lemma lower_sample: "lower ''Invoice.PDF'' = ''invoice.pdf''"
  by code_simp

subsection \<open>Selection of the parts\<close>

text \<open>
  C3. The downloads that \<^verbatim>\<open>process_single_email\<close> makes are those of the parts whose
  filename is present, not empty and ends in \<^verbatim>\<open>.pdf\<close> once in lower case, in the order
  of the parts; a part that fails this test is passed over with no call at all.
\<close>

theorem only_pdf_parts_are_downloaded:
  "filter is_download (calls (snd (process_single_email E gmail_service drive_service msg_id s))) =
     filter is_download (calls s) @
       (case messages_get E (calls s) gmail_service msg_id of
          Inl e \<Rightarrow> []
        | Inr m \<Rightarrow> concat (map (downloads_of msg_id) (message_parts m))) \<and>
   (is_pdf_part p \<longleftrightarrow>
      (\<exists>filename. part_filename p = Some filename \<and> filename \<noteq> [] \<and> endswith (lower filename) ''.pdf'')) \<and>
   (\<not> is_pdf_part p \<longrightarrow>
      downloads_of msg_id p = [] \<and>
      process_part E gmail_service drive_service msg_id p s = (Inr (), s))"
proof -
  obtain cs where "calls (snd (process_single_email E gmail_service drive_service msg_id s)) =
      calls s @ MessagesGet msg_id # cs"
    "filter is_download cs =
       (case messages_get E (calls s) gmail_service msg_id of
          Inl e \<Rightarrow> []
        | Inr m \<Rightarrow> concat (map (downloads_of msg_id) (message_parts m)))"
    using process_single_email_calls by blast
  then have "filter is_download (calls (snd (process_single_email E gmail_service drive_service msg_id s))) =
     filter is_download (calls s) @
       (case messages_get E (calls s) gmail_service msg_id of
          Inl e \<Rightarrow> []
        | Inr m \<Rightarrow> concat (map (downloads_of msg_id) (message_parts m)))"
    by simp
  moreover have "is_pdf_part p \<longleftrightarrow>
      (\<exists>filename. part_filename p = Some filename \<and> filename \<noteq> [] \<and> endswith (lower filename) ''.pdf'')"
    by (simp add: is_pdf_part_def split: option.splits)
  moreover have "\<not> is_pdf_part p \<longrightarrow>
      downloads_of msg_id p = [] \<and>
      process_part E gmail_service drive_service msg_id p s = (Inr (), s)"
    by (simp add: downloads_of_def process_part_def)
  ultimately show ?thesis by blast
qed

theorem only_pdf_parts_are_downloaded_witness:
  "filter is_download (calls (snd (process_single_email
      (sample_env\<lparr>messages_get := \<lambda>h g i. Inr \<lparr>payload = Some \<lparr>parts = Some
         [sample_part ''Invoice.PDF'' ''a1'', sample_part ''notes.txt'' ''a2'',
          \<lparr>part_filename = None, part_body = Some \<lparr>attachmentId = Some ''a3''\<rparr>\<rparr>,
          sample_part ''pdf'' ''a4'', sample_part [] ''a5'']\<rparr>\<rparr>\<rparr>)
      (Service ''gmail'' ''v1'') (Service ''drive'' ''v3'') ''m1'' initial))) =
     [AttachmentsGet ''m1'' ''a1''] \<and>
   \<not> is_pdf_part (sample_part ''notes.txt'' ''a2'') \<and>
   process_part sample_env (Service ''gmail'' ''v1'') (Service ''drive'' ''v3'') ''m1''
     (sample_part ''notes.txt'' ''a2'') initial = (Inr (), initial)"
  using only_pdf_parts_are_downloaded [of
      "sample_env\<lparr>messages_get := \<lambda>h g i. Inr \<lparr>payload = Some \<lparr>parts = Some
         [sample_part ''Invoice.PDF'' ''a1'', sample_part ''notes.txt'' ''a2'',
          \<lparr>part_filename = None, part_body = Some \<lparr>attachmentId = Some ''a3''\<rparr>\<rparr>,
          sample_part ''pdf'' ''a4'', sample_part [] ''a5'']\<rparr>\<rparr>\<rparr>"
      "Service ''gmail'' ''v1''" "Service ''drive'' ''v3''" "''m1''" initial
      "sample_part ''notes.txt'' ''a2''"]
    only_pdf_parts_are_downloaded [of sample_env
      "Service ''gmail'' ''v1''" "Service ''drive'' ''v3''" "''m1''" initial
      "sample_part ''notes.txt'' ''a2''"]
  by (simp add: sample_env_def sample_part_def initial_def message_parts_def downloads_of_def
      is_pdf_part_def endswith_def lower_sample)
     (simp add: lower_def lower_char_def)

subsection \<open>Failure isolation\<close>

text \<open>
  C2. Whatever fails, the loop over the messages runs \<^verbatim>\<open>process_single_email\<close> on
  every message in order, and fetches each of them; the loop over the parts of a message
  runs on every part. An exception raised in the body of \<^verbatim>\<open>process_single_email\<close> or of
  \<^verbatim>\<open>process_attachment\<close> is logged by that function, which then returns normally.
\<close>

theorem failures_do_not_stop_the_loops:
  "for_each (\<lambda>m. process_single_email E gmail_service drive_service (message_id m)) ms s =
     (Inr (), foldl (\<lambda>s m. snd (process_single_email E gmail_service drive_service (message_id m) s)) s ms) \<and>
   filter is_fetch (calls (snd (for_each
       (\<lambda>m. process_single_email E gmail_service drive_service (message_id m)) ms s))) =
     filter is_fetch (calls s) @ map (\<lambda>m. MessagesGet (message_id m)) ms \<and>
   for_each (process_part E gmail_service drive_service msg_id) ps s =
     (Inr (), foldl (\<lambda>s p. snd (process_part E gmail_service drive_service msg_id p s)) s ps) \<and>
   process_single_email E gmail_service drive_service msg_id s =
     (case process_single_email_body E gmail_service drive_service msg_id s of
        (Inl e, s') \<Rightarrow>
          (Inr (), s'\<lparr>logged := logged s' @ [ERROR (''Error processing message '' @ msg_id @ '': '' @ str e)]\<rparr>)
      | (Inr u, s') \<Rightarrow> (Inr (), s')) \<and>
   process_attachment E gmail_service drive_service msg_id p s =
     (case process_attachment_body E gmail_service drive_service msg_id p s of
        (Inl e, s') \<Rightarrow>
          (Inr (), s'\<lparr>logged := logged s' @ [ERROR (''Error processing attachment: '' @ str e)]\<rparr>)
      | (Inr u, s') \<Rightarrow> (Inr (), s'))"
proof -
  have loop: "for_each (\<lambda>m. process_single_email E gmail_service drive_service (message_id m)) ms s =
     (Inr (), foldl (\<lambda>s m. snd (process_single_email E gmail_service drive_service (message_id m) s)) s ms)"
    by (rule for_each_returns) (rule process_single_email_returns)
  have fetches: "filter is_fetch (calls (snd (for_each
       (\<lambda>m. process_single_email E gmail_service drive_service (message_id m)) ms s))) =
     filter is_fetch (calls s) @ map (\<lambda>m. MessagesGet (message_id m)) ms"
    by (simp add: loop messages_loop_fetches)
  have parts: "for_each (process_part E gmail_service drive_service msg_id) ps s =
     (Inr (), foldl (\<lambda>s p. snd (process_part E gmail_service drive_service msg_id p s)) s ps)"
    by (rule for_each_returns) (rule process_part_returns)
  have email: "process_single_email E gmail_service drive_service msg_id s =
     (case process_single_email_body E gmail_service drive_service msg_id s of
        (Inl e, s') \<Rightarrow>
          (Inr (), s'\<lparr>logged := logged s' @ [ERROR (''Error processing message '' @ msg_id @ '': '' @ str e)]\<rparr>)
      | (Inr u, s') \<Rightarrow> (Inr (), s'))"
    by (simp add: process_single_email_def try_except_def logger_error_def split: prod.splits sum.splits)
  have att: "process_attachment E gmail_service drive_service msg_id p s =
     (case process_attachment_body E gmail_service drive_service msg_id p s of
        (Inl e, s') \<Rightarrow>
          (Inr (), s'\<lparr>logged := logged s' @ [ERROR (''Error processing attachment: '' @ str e)]\<rparr>)
      | (Inr u, s') \<Rightarrow> (Inr (), s'))"
    by (simp add: process_attachment_def try_except_def logger_error_def split: prod.splits sum.splits)
  from loop fetches parts email att show ?thesis by blast
qed

text \<open>
  The sample run: the download for message 2 raises; messages 1 and 3 are fetched,
  downloaded and uploaded, the error of message 2 is logged between them, and no scratch
  file is left.
\<close>

theorem failures_do_not_stop_the_loops_witness:
  "fst (process_emails sample_env initial) = Inr () \<and>
   filter is_fetch (calls (snd (process_emails sample_env initial))) =
     [MessagesGet ''m1'', MessagesGet ''m2'', MessagesGet ''m3''] \<and>
   filter is_download (calls (snd (process_emails sample_env initial))) =
     [AttachmentsGet ''m1'' ''att-m1'', AttachmentsGet ''m2'' ''att-m2'', AttachmentsGet ''m3'' ''att-m3''] \<and>
   filter is_upload (calls (snd (process_emails sample_env initial))) =
     [FilesCreate ''m1.pdf'' (Some ''folder'') ''invoices/m1.pdf'',
      FilesCreate ''m3.pdf'' (Some ''folder'') ''invoices/m3.pdf''] \<and>
   logged (snd (process_emails sample_env initial)) =
     [INFO ''File m1.pdf uploaded successfully, ID: id-m1.pdf'',
      ERROR ''Error processing attachment: HttpError 500'',
      INFO ''File m3.pdf uploaded successfully, ID: id-m3.pdf''] \<and>
   fs (snd (process_emails sample_env initial)) = Map.empty"
  using failures_do_not_stop_the_loops [of sample_env "Service ''gmail'' ''v1''" "Service ''drive'' ''v3''"
      "[\<lparr>message_id = ''m1''\<rparr>, \<lparr>message_id = ''m2''\<rparr>, \<lparr>message_id = ''m3''\<rparr>]"
      "initial\<lparr>calls := [FromClientSecretsFile ''credentials.json'', RunLocalServer, Build ''gmail'' ''v1'',
         FromClientSecretsFile ''credentials.json'', RunLocalServer, Build ''drive'' ''v3'',
         MessagesList query]\<rparr>" "''m2''" "[]" "sample_part ''m2.pdf'' ''att-m2''"]
  by (simp add: sample_env_def sample_part_def initial_def model_defs run_simps)

subsection \<open>Failures before the loop\<close>

text \<open>
  C6. When building the mail service, building the storage service or the search raises,
  \<^verbatim>\<open>process_emails\<close> logs the error and returns normally; no call that processes a
  message has been made and no file has changed.
\<close>

theorem setup_failure_ends_the_run:
  assumes "fst (get_google_service E ''gmail'' ''v1'' None s) = Inl e \<or>
     (\<exists>gmail_service s1. get_google_service E ''gmail'' ''v1'' None s = (Inr gmail_service, s1) \<and>
        (fst (get_google_service E ''drive'' ''v3'' None s1) = Inl e \<or>
         (\<exists>drive_service s2. get_google_service E ''drive'' ''v3'' None s1 = (Inr drive_service, s2) \<and>
            messages_list E (calls s2) gmail_service query = Inl e)))"
  shows "fst (process_emails E s) = Inr () \<and>
         logged (snd (process_emails E s)) = logged s @ [ERROR (''Error processing emails: '' @ str e)] \<and>
         filter is_processing (calls (snd (process_emails E s))) = filter is_processing (calls s) \<and>
         fs (snd (process_emails E s)) = fs s"
proof -
  let ?goal = "\<lambda>r. fst r = Inr () \<and>
         logged (snd r) = logged s @ [ERROR (''Error processing emails: '' @ str e)] \<and>
         filter is_processing (calls (snd r)) = filter is_processing (calls s) \<and>
         fs (snd r) = fs s"
  obtain r1 s1 where g: "get_google_service E ''gmail'' ''v1'' None s = (r1, s1)"
    by (cases "get_google_service E ''gmail'' ''v1'' None s")
  have s1: "fs s1 = fs s" "logged s1 = logged s"
      "filter is_processing (calls s1) = filter is_processing (calls s)"
    using get_google_service_effect [of E "''gmail''" "''v1''" None s] g by simp_all
  show ?thesis
  proof (cases r1)
    case (Inl e1)
    with assms g have "e1 = e" by auto
    with Inl g s1 show ?thesis
      by (simp add: process_emails_def process_emails_body_def run_simps)
  next
    case (Inr gmail_service)
    obtain r2 s2 where d: "get_google_service E ''drive'' ''v3'' None s1 = (r2, s2)"
      by (cases "get_google_service E ''drive'' ''v3'' None s1")
    have s2: "fs s2 = fs s" "logged s2 = logged s"
        "filter is_processing (calls s2) = filter is_processing (calls s)"
      using get_google_service_effect [of E "''drive''" "''v3''" None s1] d s1 by simp_all
    show ?thesis
    proof (cases r2)
      case (Inl e2)
      with assms g d Inr have "e2 = e" by auto
      with Inl Inr g d s2 show ?thesis
        by (simp add: process_emails_def process_emails_body_def run_simps)
    next
      case drive: (Inr drive_service)
      with assms g d Inr have "messages_list E (calls s2) gmail_service query = Inl e" by auto
      with drive Inr g d s2 show ?thesis
        by (simp add: process_emails_def process_emails_body_def run_simps)
    qed
  qed
qed

theorem setup_failure_ends_the_run_witness:
  "process_emails (sample_env\<lparr>from_client_secrets_file := \<lambda>h path. Some (Exn ''No such file: credentials.json'')\<rparr>)
      initial =
     (Inr (), \<lparr>fs = Map.empty, logged = [ERROR ''Error processing emails: No such file: credentials.json''],
               calls = [FromClientSecretsFile ''credentials.json'']\<rparr>) \<and>
   logged (snd (process_emails (sample_env\<lparr>messages_list := \<lambda>h g q. Inl (Exn ''HttpError 403'')\<rparr>) initial)) =
     [ERROR ''Error processing emails: HttpError 403''] \<and>
   filter is_processing
     (calls (snd (process_emails (sample_env\<lparr>messages_list := \<lambda>h g q. Inl (Exn ''HttpError 403'')\<rparr>) initial))) = []"
  using setup_failure_ends_the_run [of
      "sample_env\<lparr>from_client_secrets_file := \<lambda>h path. Some (Exn ''No such file: credentials.json'')\<rparr>"
      initial "Exn ''No such file: credentials.json''"]
    setup_failure_ends_the_run [of
      "sample_env\<lparr>messages_list := \<lambda>h g q. Inl (Exn ''HttpError 403'')\<rparr>"
      initial "Exn ''HttpError 403''"]
  by (simp add: sample_env_def initial_def get_google_service_def run_simps
      process_emails_def process_emails_body_def)

subsection \<open>The job body\<close>

text \<open>
  C7, as amended. \<^verbatim>\<open>main\<close> calls \<^verbatim>\<open>os.makedirs\<close> outside every handler. Provided
  that call succeeds, \<^verbatim>\<open>main\<close> returns normally, whatever authentication, the search,
  the fetches, the downloads, the decoding, the file writes and the uploads do, and its
  last log record is the completion message.
\<close>

theorem main_completes_when_the_directory_is_made:
  assumes "makedirs E (calls s) ''invoices'' = None"
  shows "fst (main E s) = Inr () \<and>
         last (logged (snd (main E s))) = INFO ''Completed invoice processing job''"
proof -
  obtain r s' where p: "process_emails E (s\<lparr>logged := logged s @ [INFO ''Starting invoice processing job''],
        calls := calls s @ [Makedirs ''invoices'']\<rparr>) = (r, s')"
    by (cases "process_emails E (s\<lparr>logged := logged s @ [INFO ''Starting invoice processing job''],
        calls := calls s @ [Makedirs ''invoices'']\<rparr>)")
  with process_emails_returns [of E "s\<lparr>logged := logged s @ [INFO ''Starting invoice processing job''],
        calls := calls s @ [Makedirs ''invoices'']\<rparr>"]
  have "r = Inr ()" by simp
  with p assms show ?thesis
    by (simp add: main_def os_makedirs_def run_simps)
qed

theorem main_completes_when_the_directory_is_made_witness:
  "fst (main (sample_env\<lparr>run_local_server := \<lambda>h. Inl (Exn ''access denied'')\<rparr>) initial) = Inr () \<and>
   logged (snd (main (sample_env\<lparr>run_local_server := \<lambda>h. Inl (Exn ''access denied'')\<rparr>) initial)) =
     [INFO ''Starting invoice processing job'',
      ERROR ''Error processing emails: access denied'',
      INFO ''Completed invoice processing job'']"
  using main_completes_when_the_directory_is_made [of
      "sample_env\<lparr>run_local_server := \<lambda>h. Inl (Exn ''access denied'')\<rparr>" initial]
  by (simp add: sample_env_def initial_def main_def os_makedirs_def get_google_service_def run_simps
      process_emails_def process_emails_body_def)

text \<open>
  C7 as stated fails: when \<^verbatim>\<open>os.makedirs\<close> raises, the exception leaves \<^verbatim>\<open>main\<close>
  and reaches the scheduler loop; the messages are not processed.
\<close>

theorem main_raises_when_makedirs_raises:
  "fst (main readonly_env initial) = Inl (Exn ''[Errno 13] Permission denied'') \<and>
   fst (main readonly_env initial) \<noteq> Inr () \<and>
   logged (snd (main readonly_env initial)) = [INFO ''Starting invoice processing job''] \<and>
   calls (snd (main readonly_env initial)) = [Makedirs ''invoices'']"
  by (simp add: readonly_env_def sample_env_def initial_def main_def os_makedirs_def run_simps)

end
